theory Spec2Isabelle
  imports Complex_Main
begin

section \<open>Values, records and the record store\<close>

text \<open>
  Request bodies and stored documents are JavaScript values. Numbers are the finite
  values of a double, read as rationals; the non-finite ones never pass the integer
  check of a schema. Strings are lists of characters, one character per code unit
  (the code units below 256).
\<close>

datatype json =
    JUndefined
  | JNull
  | JBool bool
  | JNum rat
  | JStr string
  | JArr "json list"
  | JObj "(string \<times> json) list"

text \<open>The conversion to a boolean that \<^verbatim>\<open>!v\<close> applies.\<close>

fun truthy :: "json \<Rightarrow> bool" where
  "truthy JUndefined = False"
| "truthy JNull = False"
| "truthy (JBool b) = b"
| "truthy (JNum r) = (r \<noteq> 0)"
| "truthy (JStr s) = (s \<noteq> [])"
| "truthy (JArr xs) = True"
| "truthy (JObj kvs) = True"

text \<open>A document is its list of fields; reading a field that is missing gives undefined.\<close>

type_synonym doc = "(string \<times> json) list"

definition field :: "doc \<Rightarrow> string \<Rightarrow> json" where
  "field d k = (case map_of d k of None \<Rightarrow> JUndefined | Some v \<Rightarrow> v)"

text \<open>
  \<^verbatim>\<open>new Date(t)\<close>: a time value beyond 8.64e15 milliseconds from the epoch gives the
  invalid date.
\<close>

datatype date = Date int | InvalidDate

definition new_Date :: "int \<Rightarrow> date" where
  "new_Date t = (if \<bar>t\<bar> \<le> 8640000000000000 then Date t else InvalidDate)"

record ban =
  ban_userId :: string
  ban_reason :: string
  bannedBy :: string
  bannedAt :: date
  ban_duration :: int
  expiresAt :: date

record license =
  lic_key :: string
  lic_plan :: string
  validityDays :: int
  createdBy :: string
  createdAt :: date
  used :: bool
  usedBy :: "string option"
  usedAt :: "date option"

text \<open>
  The log of the record store: every lookup a handler asks for, with the id it asks
  for, and every document the store takes in. A handler that touches nothing leaves the
  log as it was.
\<close>

datatype db_op =
    GetUser string
  | GetAllUsers
  | AddBan ban
  | SetLicense string license


text \<open>
  The three collections. \<open>users\<close> lists the documents in the order a collection read
  returns them; \<open>bans\<close> grows by one document per \<^verbatim>\<open>add\<close>; \<open>licenses\<close> is keyed by
  the licence key. \<open>subdocs\<close> holds the documents that lie deeper below \<open>users\<close>, in a
  subcollection of a user document, each under the segments of its path; no handler
  writes there.
\<close>

record world =
  users :: "(string \<times> doc) list"
  bans :: "ban list"
  licenses :: "string \<rightharpoonup> license"
  oplog :: "db_op list"
  subdocs :: "(string list \<times> doc) list"

text \<open>
  What a handler throws and what it answers. \<open>ZodError\<close> is the failure of a schema and
  \<open>StoreError\<close> is what the record store throws when it refuses a call; the messages of
  the two are not modelled. \<open>ReferenceError\<close> is the use of a name that is not defined.
\<close>

datatype exn = ZodError | StoreError | ReferenceError string | Error string

datatype response =
    Json json
  | Fail nat string "exn option"

fun is_error :: "response \<Rightarrow> bool" where
  "is_error (Json j) = False"
| "is_error (Fail st msg det) = True"

text \<open>
  The module state after start-up: \<open>adminAuth\<close> is the token verifier of the identity
  provider, or nothing when no service-account credential was given (or initialising
  failed). The verifier returns the decoded subject or throws.
\<close>

record env =
  adminAuth :: "(string \<Rightarrow> exn + string) option"

text \<open>
  Start-up: the credential is the environment variable, if set. \<open>sdk\<close> stands for
  parsing the credential and initialising the SDK with it, giving the verifier, or
  nothing when the parsed credential is falsy or a step throws. An unset or empty
  variable initialises nothing.
\<close>

definition initialize :: "(string \<Rightarrow> (string \<Rightarrow> exn + string) option) \<Rightarrow> string option \<Rightarrow> env" where
  "initialize sdk credential =
     (case credential of
        None \<Rightarrow> \<lparr>adminAuth = None\<rparr>
      | Some k \<Rightarrow> if k = [] then \<lparr>adminAuth = None\<rparr> else \<lparr>adminAuth = sdk k\<rparr>)"


record request =
  req_body :: json
  authorization :: "string option"

section \<open>Strings\<close>

definition code :: "char \<Rightarrow> nat" where
  "code c = of_char c"

definition in_range :: "char \<Rightarrow> char \<Rightarrow> char \<Rightarrow> bool" where
  "in_range lo hi c = (code lo \<le> code c \<and> code c \<le> code hi)"

definition is_digit :: "char \<Rightarrow> bool" where
  "is_digit c = in_range (CHR ''0'') (CHR ''9'') c"

definition is_lower :: "char \<Rightarrow> bool" where
  "is_lower c = in_range (CHR ''a'') (CHR ''z'') c"

definition is_upper :: "char \<Rightarrow> bool" where
  "is_upper c = in_range (CHR ''A'') (CHR ''Z'') c"

definition is_alnum :: "char \<Rightarrow> bool" where
  "is_alnum c = (is_lower c \<or> is_upper c \<or> is_digit c)"

definition is_hex :: "char \<Rightarrow> bool" where
  "is_hex c = (is_digit c \<or> in_range (CHR ''a'') (CHR ''f'') c \<or> in_range (CHR ''A'') (CHR ''F'') c)"

text \<open>The white space and line terminators that \<^verbatim>\<open>trim\<close> removes, among the code units below 256.\<close>

definition is_space :: "char \<Rightarrow> bool" where
  "is_space c = (code c \<in> {9, 10, 11, 12, 13, 32, 160})"

definition trim :: "string \<Rightarrow> string" where
  "trim s = rev (dropWhile is_space (rev (dropWhile is_space s)))"

text \<open>\<^verbatim>\<open>toUpperCase\<close> on the letters a to z; the other characters of a base-36 numeral stay.\<close>

definition toUpperCase :: "string \<Rightarrow> string" where
  "toUpperCase s = map (\<lambda>c. if is_lower c then char_of (code c - 32) else c) s"

text \<open>\<^verbatim>\<open>s.substr(start, len)\<close> for a start and a length that are not negative.\<close>

definition substr :: "string \<Rightarrow> nat \<Rightarrow> nat \<Rightarrow> string" where
  "substr s start len = take len (drop start s)"

text \<open>The decimal numeral that a template literal prints for an integer.\<close>

function show_nat :: "nat \<Rightarrow> string" where
  "show_nat n =
     (if n < 10 then [char_of (48 + n)]
      else show_nat (n div 10) @ [char_of (48 + n mod 10)])"
  by pat_completeness auto
termination
  by (relation "measure id") auto

declare show_nat.simps [simp del]

definition show_int :: "int \<Rightarrow> string" where
  "show_int i = (if i < 0 then CHR ''-'' # show_nat (nat (- i)) else show_nat (nat i))"

text \<open>
  \<^verbatim>\<open>s.split(sep)\<close> for a separator that is not empty: the pieces between the
  occurrences of the separator, found from the left. The counter says how many
  characters of a separator just found are still to be skipped.
\<close>

fun split_go :: "string \<Rightarrow> nat \<Rightarrow> string \<Rightarrow> string \<Rightarrow> string list" where
  "split_go sep k cur [] = [rev cur]"
| "split_go sep (Suc k) cur (c # cs) = split_go sep k cur cs"
| "split_go sep 0 cur (c # cs) =
     (if take (length sep) (c # cs) = sep
      then rev cur # split_go sep (length sep - 1) [] cs
      else split_go sep 0 (c # cur) cs)"

definition js_split :: "string \<Rightarrow> string \<Rightarrow> string list" where
  "js_split s sep = split_go sep 0 [] s"

text \<open>
  \<^verbatim>\<open>req.headers.authorization?.split("Bearer ")[1]\<close>, followed by the test
  \<^verbatim>\<open>if (!idToken) throw\<close>: no header, no second piece and an empty second piece all throw.
\<close>

definition bearer_token :: "request \<Rightarrow> exn + string" where
  "bearer_token req =
     (case authorization req of
        None \<Rightarrow> Inl (Error ''No ID token provided'')
      | Some h \<Rightarrow>
         (case js_split h ''Bearer '' of
            a # t # rest \<Rightarrow> if t = [] then Inl (Error ''No ID token provided'') else Inr t
          | _ \<Rightarrow> Inl (Error ''No ID token provided'')))"

text \<open>Some suffix of the string, the empty one included, satisfies \<open>P\<close>.\<close>

fun ex_suffix :: "(string \<Rightarrow> bool) \<Rightarrow> string \<Rightarrow> bool" where
  "ex_suffix P [] = P []"
| "ex_suffix P (c # cs) = (P (c # cs) \<or> ex_suffix P cs)"

definition contains :: "string \<Rightarrow> string \<Rightarrow> bool" where
  "contains pat s = ex_suffix (\<lambda>t. take (length pat) t = pat) s"

section \<open>The calls on the record store\<close>

definition logged :: "db_op \<Rightarrow> world \<Rightarrow> world" where
  "logged op w = w\<lparr>oplog := oplog w @ [op]\<rparr>"

text \<open>
  \<^verbatim>\<open>collection("users").doc(id)\<close> follows the rule of the store's client library for
  document paths, which is not code of the repository. The id is a path below \<open>users\<close>:
  it must not be empty and must not contain \<^verbatim>\<open>//\<close>; its segments are the pieces between
  slashes that are not empty; and it names a document when the number of segments is
  odd. One segment names a document of \<open>users\<close>, three or more name a document of a
  subcollection. Otherwise the call throws.
\<close>

definition doc_segments :: "string \<Rightarrow> string list" where
  "doc_segments p = filter (\<lambda>s. s \<noteq> []) (js_split p ''/'')"

definition find_user :: "world \<Rightarrow> string \<Rightarrow> exn + doc option" where
  "find_user w p =
     (if p = [] \<or> contains ''//'' p then Inl StoreError
      else
        (case doc_segments p of
           [] \<Rightarrow> Inl StoreError
         | [k] \<Rightarrow> Inr (map_of (users w) k)
         | k # ks \<Rightarrow>
             if even (length (k # ks)) then Inl StoreError
             else Inr (map_of (subdocs w) (k # ks))))"

text \<open>
  \<^verbatim>\<open>collection("users").doc(uid).get()\<close>: the lookup is logged with the id it asks for,
  whether the store carries it out or refuses the id.
\<close>

definition get_user :: "string \<Rightarrow> world \<Rightarrow> (exn + doc option) \<times> world" where
  "get_user uid w = (find_user w uid, logged (GetUser uid) w)"

definition get_all_users :: "world \<Rightarrow> (string \<times> doc) list \<times> world" where
  "get_all_users w = (users w, logged GetAllUsers w)"

text \<open>
  The store keeps a date as a timestamp, whose seconds must lie between the first second
  of the year 1 and the last second of the year 9999; it refuses the invalid date and
  every date outside that range.
\<close>

definition store_takes :: "date \<Rightarrow> bool" where
  "store_takes d =
     (case d of
        Date t \<Rightarrow> - 62135596800 \<le> t div 1000 \<and> t div 1000 \<le> 253402300799
      | InvalidDate \<Rightarrow> False)"

text \<open>
  \<^verbatim>\<open>collection("bans").add(banData)\<close>: throws, and writes nothing, when the store refuses
  one of the two dates of the document.
\<close>

definition add_ban :: "ban \<Rightarrow> world \<Rightarrow> exn + world" where
  "add_ban b w =
     (if store_takes (bannedAt b) \<and> store_takes (expiresAt b)
      then Inr (logged (AddBan b) (w\<lparr>bans := bans w @ [b]\<rparr>))
      else Inl StoreError)"

text \<open>
  \<^verbatim>\<open>collection("licenses").doc(licenseKey).set(licenseData)\<close>. The only date of the
  document is the reading of the clock.
\<close>

definition set_license :: "string \<Rightarrow> license \<Rightarrow> world \<Rightarrow> world" where
  "set_license k l w = logged (SetLicense k l) (w\<lparr>licenses := (licenses w)(k \<mapsto> l)\<rparr>)"

section \<open>Validation schemas\<close>

definition is_integer :: "rat \<Rightarrow> bool" where
  "is_integer r = (of_int \<lfloor>r\<rfloor> = r)"

definition z_string :: "json \<Rightarrow> string option" where
  "z_string v = (case v of JStr s \<Rightarrow> Some s | _ \<Rightarrow> None)"

text \<open>\<^verbatim>\<open>z.number().int()\<close>: a number whose value is an integer.\<close>

definition z_int :: "json \<Rightarrow> int option" where
  "z_int v = (case v of JNum r \<Rightarrow> if is_integer r then Some \<lfloor>r\<rfloor> else None | _ \<Rightarrow> None)"

text \<open>\<^verbatim>\<open>z.object\<close> accepts an object only, and reads the declared keys of it.\<close>

definition z_object :: "json \<Rightarrow> doc option" where
  "z_object v = (case v of JObj kvs \<Rightarrow> Some kvs | _ \<Rightarrow> None)"

text \<open>
  \<^verbatim>\<open>z.string().uuid()\<close>: five groups of 8, 4, 4, 4 and 12 hexadecimal digits joined by
  hyphens, so a string of 36 characters.
\<close>

fun hex_groups :: "nat list \<Rightarrow> string \<Rightarrow> bool" where
  "hex_groups [] s = False"
| "hex_groups [n] s = (length s = n \<and> list_all is_hex s)"
| "hex_groups (n # m # ns) s =
     (list_all is_hex (take n s) \<and> length (take n s) = n \<and>
      (case drop n s of
         [] \<Rightarrow> False
       | c # r \<Rightarrow> c = CHR ''-'' \<and> hex_groups (m # ns) r))"

definition is_uuid :: "string \<Rightarrow> bool" where
  "is_uuid s = hex_groups [8, 4, 4, 4, 12] s"

record ban_request =
  idToken :: string
  userId :: string
  reason :: string
  duration :: int

text \<open>The schemas of \<^verbatim>\<open>server/routes/admin.ts\<close>.\<close>

definition VerifyAdminSchema :: "json \<Rightarrow> string option" where
  "VerifyAdminSchema b =
     (case z_object b of
        None \<Rightarrow> None
      | Some obj \<Rightarrow>
         (case z_string (field obj ''idToken'') of
            None \<Rightarrow> None
          | Some t \<Rightarrow> if 1 \<le> length t then Some t else None))"

definition BanUserSchema :: "json \<Rightarrow> ban_request option" where
  "BanUserSchema b =
     (case z_object b of
        None \<Rightarrow> None
      | Some obj \<Rightarrow>
         (case (z_string (field obj ''idToken''), z_string (field obj ''userId''),
                z_string (field obj ''reason''), z_int (field obj ''duration'')) of
            (Some t, Some u, Some r, Some d) \<Rightarrow>
              if 1 \<le> length t \<and> (is_uuid u \<or> 10 \<le> length u) \<and>
                 5 \<le> length r \<and> length r \<le> 500 \<and> 0 < d
              then Some \<lparr>idToken = t, userId = u, reason = r, duration = d\<rparr>
              else None
          | _ \<Rightarrow> None))"

text \<open>
  The schemas of the second routes file, announced there as the ones with strict
  constraints.
\<close>

definition token_format :: "string \<Rightarrow> bool" where
  "token_format t =
     (10 \<le> length t \<and> length t \<le> 3000 \<and> t \<noteq> [] \<and>
      list_all (\<lambda>c. is_alnum c \<or> c = CHR ''_'' \<or> c = CHR ''-'' \<or> c = CHR ''.'') t)"

definition VerifyAdminSchema_strict :: "json \<Rightarrow> string option" where
  "VerifyAdminSchema_strict b =
     (case z_object b of
        None \<Rightarrow> None
      | Some obj \<Rightarrow>
         (case z_string (field obj ''idToken'') of
            None \<Rightarrow> None
          | Some t \<Rightarrow> if token_format t then Some t else None))"

definition BanUserSchema_strict :: "json \<Rightarrow> ban_request option" where
  "BanUserSchema_strict b =
     (case z_object b of
        None \<Rightarrow> None
      | Some obj \<Rightarrow>
         (case (z_string (field obj ''idToken''), z_string (field obj ''userId''),
                z_string (field obj ''reason''), z_int (field obj ''duration'')) of
            (Some t, Some u, Some r, Some d) \<Rightarrow>
              if token_format t \<and> 10 \<le> length u \<and> length u \<le> 100 \<and>
                 5 \<le> length r \<and> length r \<le> 500 \<and> 1 \<le> d \<and> d \<le> 36500
              then Some \<lparr>idToken = t, userId = u, reason = trim r, duration = d\<rparr>
              else None
          | _ \<Rightarrow> None))"

text \<open>The schema that Create License builds in place, the same in both files.\<close>

definition LicenseSchema :: "json \<Rightarrow> (string \<times> int) option" where
  "LicenseSchema b =
     (case z_object b of
        None \<Rightarrow> None
      | Some obj \<Rightarrow>
         (case (z_string (field obj ''plan''), z_int (field obj ''validityDays'')) of
            (Some p, Some v) \<Rightarrow>
              if p \<in> set [''Free'', ''Classic'', ''Pro''] \<and> 0 < v then Some (p, v) else None
          | _ \<Rightarrow> None))"

section \<open>The authorization gate and the admin operations\<close>

text \<open>
  \<^verbatim>\<open>verifyAdmin\<close>: throws when the SDK is not initialised, then lets the identity
  provider verify the token, reads the subject's user document and throws unless the
  document exists and its \<^verbatim>\<open>isAdmin\<close> field is truthy.
\<close>

definition verifyAdmin :: "env \<Rightarrow> string \<Rightarrow> world \<Rightarrow> (exn + string) \<times> world" where
  "verifyAdmin e tok w =
     (case adminAuth e of
        None \<Rightarrow> (Inl (Error ''Admin SDK not initialized''), w)
      | Some verifyIdToken \<Rightarrow>
         (case verifyIdToken tok of
            Inl x \<Rightarrow> (Inl x, w)
          | Inr uid \<Rightarrow>
             (case get_user uid w of
                (Inl x, w1) \<Rightarrow> (Inl x, w1)
              | (Inr None, w1) \<Rightarrow> (Inl (Error ''Unauthorized: Not an admin''), w1)
              | (Inr (Some d), w1) \<Rightarrow>
                  if \<not> truthy (field d ''isAdmin'')
                  then (Inl (Error ''Unauthorized: Not an admin''), w1)
                  else (Inr uid, w1))))"

text \<open>
  Verify Admin of \<^verbatim>\<open>server/routes/admin.ts\<close>, with the schema it parses the body with as
  a parameter.
\<close>

definition handleVerifyAdmin_with ::
  "(json \<Rightarrow> string option) \<Rightarrow> env \<Rightarrow> request \<Rightarrow> world \<Rightarrow> response \<times> world" where
  "handleVerifyAdmin_with schema e req w =
     (case schema (req_body req) of
        None \<Rightarrow> (Fail 401 ''Unauthorized'' (Some ZodError), w)
      | Some tok \<Rightarrow>
         (case verifyAdmin e tok w of
            (Inl x, w1) \<Rightarrow> (Fail 401 ''Unauthorized'' (Some x), w1)
          | (Inr adminUid, w1) \<Rightarrow>
              (Json (JObj [(''success'', JBool True), (''adminUid'', JStr adminUid)]), w1)))"

definition handleVerifyAdmin :: "env \<Rightarrow> request \<Rightarrow> world \<Rightarrow> response \<times> world" where
  "handleVerifyAdmin = handleVerifyAdmin_with VerifyAdminSchema"

text \<open>
  Verify Admin of the second routes file. That file neither declares nor imports
  \<^verbatim>\<open>verifyAdmin\<close>, so once the body has passed the schema the call throws and the handler
  answers 401 without a call on the record store.
\<close>

definition handleVerifyAdmin_strict :: "env \<Rightarrow> request \<Rightarrow> world \<Rightarrow> response \<times> world" where
  "handleVerifyAdmin_strict e req w =
     (case VerifyAdminSchema_strict (req_body req) of
        None \<Rightarrow> (Fail 401 ''Unauthorized'' (Some ZodError), w)
      | Some tok \<Rightarrow>
          (Fail 401 ''Unauthorized'' (Some (ReferenceError ''verifyAdmin is not defined'')), w))"

text \<open>
  Ban User of \<^verbatim>\<open>server/routes/admin.ts\<close>, with the schema as a parameter. The clock is read twice while the ban document is built: \<open>t_new\<close> is what
  \<^verbatim>\<open>new Date()\<close> reads for \<^verbatim>\<open>bannedAt\<close>, and \<open>t_now\<close> is what \<^verbatim>\<open>Date.now()\<close> reads next
  for \<^verbatim>\<open>expiresAt\<close>. For a duration that is an integer, the double
  \<^verbatim>\<open>Date.now() + duration * 1000\<close> is the exact sum whenever that sum is a valid time
  value, and gives the invalid date otherwise. Every throw inside the handler, that of
  the store included, is caught and answered 400.
\<close>

definition handleBanUser_with ::
  "(json \<Rightarrow> ban_request option) \<Rightarrow> env \<Rightarrow> int \<Rightarrow> int \<Rightarrow> request \<Rightarrow> world \<Rightarrow> response \<times> world" where
  "handleBanUser_with schema e t_new t_now req w =
     (case schema (req_body req) of
        None \<Rightarrow> (Fail 400 ''Failed to ban user'' (Some ZodError), w)
      | Some r \<Rightarrow>
         (case verifyAdmin e (idToken r) w of
            (Inl x, w1) \<Rightarrow> (Fail 400 ''Failed to ban user'' (Some x), w1)
          | (Inr adminUid, w1) \<Rightarrow>
             (case get_user (userId r) w1 of
                (Inl x, w2) \<Rightarrow> (Fail 400 ''Failed to ban user'' (Some x), w2)
              | (Inr None, w2) \<Rightarrow> (Fail 404 ''User not found'' None, w2)
              | (Inr (Some target), w2) \<Rightarrow>
                  if truthy (field target ''isAdmin'')
                  then (Fail 403 ''Cannot ban admin users'' None, w2)
                  else
                    (let banData =
                       \<lparr>ban_userId = userId r, ban_reason = reason r, bannedBy = adminUid,
                        bannedAt = new_Date t_new, ban_duration = duration r,
                        expiresAt = new_Date (t_now + duration r * 1000)\<rparr>
                     in (case add_ban banData w2 of
                           Inl x \<Rightarrow> (Fail 400 ''Failed to ban user'' (Some x), w2)
                         | Inr w3 \<Rightarrow>
                             (Json (JObj [(''success'', JBool True),
                                          (''message'', JStr ''User banned successfully'')]),
                              w3))))))"

definition handleBanUser :: "env \<Rightarrow> int \<Rightarrow> int \<Rightarrow> request \<Rightarrow> world \<Rightarrow> response \<times> world" where
  "handleBanUser = handleBanUser_with BanUserSchema"

text \<open>
  Ban User of the second routes file: once the body has passed the schema, the call of
  the undeclared \<^verbatim>\<open>verifyAdmin\<close> throws and the handler answers 400 without a call on the
  record store.
\<close>

definition handleBanUser_strict :: "env \<Rightarrow> int \<Rightarrow> int \<Rightarrow> request \<Rightarrow> world \<Rightarrow> response \<times> world" where
  "handleBanUser_strict e t_new t_now req w =
     (case BanUserSchema_strict (req_body req) of
        None \<Rightarrow> (Fail 400 ''Failed to ban user'' (Some ZodError), w)
      | Some r \<Rightarrow>
          (Fail 400 ''Failed to ban user'' (Some (ReferenceError ''verifyAdmin is not defined'')), w))"

text \<open>List Users: the projection of every user document onto six keys.\<close>

definition project_user :: "string \<times> doc \<Rightarrow> json" where
  "project_user p =
     (case p of (uid, d) \<Rightarrow>
        JObj [(''uid'', JStr uid),
              (''email'', field d ''email''),
              (''displayName'', field d ''displayName''),
              (''isAdmin'', field d ''isAdmin''),
              (''plan'', field d ''plan''),
              (''createdAt'', field d ''createdAt'')])"

definition handleGetAllUsers :: "env \<Rightarrow> request \<Rightarrow> world \<Rightarrow> response \<times> world" where
  "handleGetAllUsers e req w =
     (case bearer_token req of
        Inl x \<Rightarrow> (Fail 401 ''Unauthorized'' (Some x), w)
      | Inr tok \<Rightarrow>
         (case verifyAdmin e tok w of
            (Inl x, w1) \<Rightarrow> (Fail 401 ''Unauthorized'' (Some x), w1)
          | (Inr adminUid, w1) \<Rightarrow>
             (case get_all_users w1 of
                (docs, w2) \<Rightarrow>
                  (Json (JObj [(''success'', JBool True),
                               (''users'', JArr (map project_user docs))]), w2))))"

text \<open>
  Create License. \<open>t_key\<close> is what \<^verbatim>\<open>Date.now()\<close> reads for the key, \<open>rnd\<close> is the string
  \<^verbatim>\<open>Math.random().toString(36)\<close>, and \<open>t_new\<close> is what \<^verbatim>\<open>new Date()\<close> reads for
  \<^verbatim>\<open>createdAt\<close>.
\<close>

definition make_key :: "int \<Rightarrow> string \<Rightarrow> string" where
  "make_key t_key rnd = ''LIC-'' @ show_int t_key @ ''-'' @ toUpperCase (substr rnd 2 9)"

definition handleCreateLicense ::
  "env \<Rightarrow> int \<Rightarrow> string \<Rightarrow> int \<Rightarrow> request \<Rightarrow> world \<Rightarrow> response \<times> world" where
  "handleCreateLicense e t_key rnd t_new req w =
     (case bearer_token req of
        Inl x \<Rightarrow> (Fail 400 ''Failed to create license'' (Some x), w)
      | Inr tok \<Rightarrow>
         (case verifyAdmin e tok w of
            (Inl x, w1) \<Rightarrow> (Fail 400 ''Failed to create license'' (Some x), w1)
          | (Inr adminUid, w1) \<Rightarrow>
             (case LicenseSchema (req_body req) of
                None \<Rightarrow> (Fail 400 ''Failed to create license'' (Some ZodError), w1)
              | Some (plan, days) \<Rightarrow>
                 (let licenseKey = make_key t_key rnd;
                      licenseData =
                        \<lparr>lic_key = licenseKey, lic_plan = plan, validityDays = days,
                         createdBy = adminUid, createdAt = new_Date t_new,
                         used = False, usedBy = None, usedAt = None\<rparr>
                  in (Json (JObj [(''success'', JBool True), (''licenseKey'', JStr licenseKey)]),
                      set_license licenseKey licenseData w1)))))"

section \<open>Client-side security helpers\<close>

subsection \<open>The sanitizer\<close>

text \<open>The class \<^verbatim>\<open>[\x00-\x08\x0B\x0C\x0E-\x1F\x7F]\<close>.\<close>

definition is_control :: "char \<Rightarrow> bool" where
  "is_control c =
     (code c \<le> 8 \<or> code c = 11 \<or> code c = 12 \<or> (14 \<le> code c \<and> code c \<le> 31) \<or> code c = 127)"

definition remove_null :: "string \<Rightarrow> string" where
  "remove_null s = filter (\<lambda>c. code c \<noteq> 0) s"

definition remove_control :: "string \<Rightarrow> string" where
  "remove_control s = filter (\<lambda>c. \<not> is_control c) s"

text \<open>
  \<^verbatim>\<open>sanitizeInput\<close>. The HTML purifier it ends with,
  \<^verbatim>\<open>DOMPurify.sanitize(s, {ALLOWED_TAGS: [], ALLOWED_ATTR: []})\<close>, is a library outside the
  repository and is taken as the parameter \<open>purify\<close>.
\<close>

definition sanitizeInput :: "(string \<Rightarrow> string) \<Rightarrow> string \<Rightarrow> string" where
  "sanitizeInput purify input =
     (if input = [] then []
      else purify (remove_control (remove_null (trim input))))"

text \<open>
  Modelled from the spec: the purifier is not part of the repository; the spec says of the
  sanitizer that it strips all markup. This stand-in drops every tag, from a
  \<^verbatim>\<open><\<close> to the next \<^verbatim>\<open>>\<close>, and keeps the text between tags as it is. It serves to
  evaluate the sanitizer on concrete inputs.
\<close>

fun strip_tags :: "bool \<Rightarrow> string \<Rightarrow> string" where
  "strip_tags in_tag [] = []"
| "strip_tags False (c # cs) =
     (if c = CHR ''<'' then strip_tags True cs else c # strip_tags False cs)"
| "strip_tags True (c # cs) =
     (if c = CHR ''>'' then strip_tags False cs else strip_tags True cs)"

definition strip_markup :: "string \<Rightarrow> string" where
  "strip_markup s = strip_tags False s"

subsection \<open>Format validators\<close>

text \<open>\<^verbatim>\<open>/^[a-zA-Z0-9]{20,40}$/\<close> after the test for an empty string.\<close>

definition validateUserId :: "string \<Rightarrow> bool" where
  "validateUserId u =
     (u \<noteq> [] \<and> 20 \<le> length u \<and> length u \<le> 40 \<and> list_all is_alnum u)"

text \<open>\<^verbatim>\<open>/^[a-zA-Z0-9\-_]{1,255}$/\<close> after the test for an empty string.\<close>

definition validateConversationId :: "string \<Rightarrow> bool" where
  "validateConversationId c =
     (c \<noteq> [] \<and> 1 \<le> length c \<and> length c \<le> 255 \<and>
      list_all (\<lambda>x. is_alnum x \<or> x = CHR ''-'' \<or> x = CHR ''_'') c)"

definition validateMessageContent :: "string \<Rightarrow> bool" where
  "validateMessageContent content =
     (if content = [] then False
      else if length (trim content) < 1 \<or> length (trim content) > 5000 then False
      else if char_of (0::nat) \<in> set content then False
      else if list_ex (\<lambda>line. length line > 1000) (js_split content [char_of (10::nat)]) then False
      else True)"

subsection \<open>The injection heuristic\<close>

text \<open>
  Matching without regard to case: the patterns are ASCII, so a pattern character
  matches itself and, for a letter, its other case.
\<close>

definition upper :: "char \<Rightarrow> char" where
  "upper c = (if is_lower c then char_of (code c - 32) else c)"

fun ci_prefix :: "string \<Rightarrow> string \<Rightarrow> bool" where
  "ci_prefix [] s = True"
| "ci_prefix (p # ps) [] = False"
| "ci_prefix (p # ps) (c # cs) = (upper p = upper c \<and> ci_prefix ps cs)"

definition contains_ci :: "string \<Rightarrow> string \<Rightarrow> bool" where
  "contains_ci pat s = ex_suffix (ci_prefix pat) s"

definition contains_any :: "string \<Rightarrow> string \<Rightarrow> bool" where
  "contains_any chars s = list_ex (\<lambda>c. c \<in> set chars) s"

text \<open>The word characters of \<^verbatim>\<open>\b\<close>.\<close>

definition is_word :: "char \<Rightarrow> bool" where
  "is_word c = (is_alnum c \<or> c = CHR ''_'')"

definition sql_keywords :: "string list" where
  "sql_keywords =
     [''SELECT'', ''INSERT'', ''UPDATE'', ''DELETE'', ''DROP'', ''CREATE'', ''ALTER'',
      ''EXEC'', ''EXECUTE'', ''UNION'', ''WHERE'', ''OR'', ''AND'']"

text \<open>A keyword starts the string and is followed by the end or by a character that is no word character.\<close>

definition keyword_at :: "string \<Rightarrow> string \<Rightarrow> bool" where
  "keyword_at k s =
     (ci_prefix k s \<and> (case drop (length k) s of [] \<Rightarrow> True | d # r \<Rightarrow> \<not> is_word d))"

text \<open>
  \<^verbatim>\<open>/(\b(SELECT|...|AND)\b)/i\<close>: a keyword stands at some position whose preceding
  character, if any, is no word character. \<open>prev\<close> says whether the preceding character
  is a word character.
\<close>

fun keyword_scan :: "bool \<Rightarrow> string \<Rightarrow> bool" where
  "keyword_scan prev [] = False"
| "keyword_scan prev (c # cs) =
     ((\<not> prev \<and> list_ex (\<lambda>k. keyword_at k (c # cs)) sql_keywords) \<or>
      keyword_scan (is_word c) cs)"

text \<open>\<^verbatim>\<open>/<script[^>]*>/i\<close>: the opening of a script tag with a \<^verbatim>\<open>>\<close> somewhere after it.\<close>

definition script_tag :: "string \<Rightarrow> bool" where
  "script_tag s =
     ex_suffix (\<lambda>t. ci_prefix ''<script'' t \<and> CHR ''>'' \<in> set (drop 7 t)) s"

definition detectInjectionAttempt :: "string \<Rightarrow> bool" where
  "detectInjectionAttempt input =
     (if input = [] then False
      else
        (keyword_scan False input \<or>
         contains_any ''{}$[]'' input \<or>
         script_tag input \<or>
         contains_ci ''javascript:'' input \<or>
         contains_any '';&|`$()'' input \<or>
         contains ''../'' input \<or>
         contains [CHR ''.'', CHR ''.'', char_of (92::nat)] input))"

subsection \<open>Secure messages\<close>

record secure_message =
  msg_conversationId :: string
  msg_userId :: string
  msg_content :: string
  sanitizedContent :: string

definition createSecureMessage ::
  "(string \<Rightarrow> string) \<Rightarrow> string \<Rightarrow> string \<Rightarrow> string \<Rightarrow> secure_message option" where
  "createSecureMessage purify conversationId uid content =
     (if \<not> validateConversationId conversationId then None
      else if \<not> validateUserId uid then None
      else if \<not> validateMessageContent content then None
      else if detectInjectionAttempt content then None
      else
        (let sanitized = sanitizeInput purify content
         in Some \<lparr>msg_conversationId = conversationId, msg_userId = uid,
                  msg_content = sanitized, sanitizedContent = sanitized\<rparr>))"

subsection \<open>The rate limiter\<close>

text \<open>
  What a key of the local storage holds: the empty text, a text that
  \<^verbatim>\<open>JSON.parse\<close> reads as an object with the numbers \<^verbatim>\<open>count\<close> and \<^verbatim>\<open>resetAt\<close> (what
  the limiter writes), or a text on which \<^verbatim>\<open>JSON.parse\<close> throws. A storage that is
  not accessible throws on every call.
\<close>

datatype cell = EmptyText | Counter int int | Broken

record storage =
  accessible :: bool
  items :: "string \<rightharpoonup> cell"

record limiter =
  lim_key :: string
  maxRequests :: int
  windowMs :: int

definition RateLimiter :: "string \<Rightarrow> int \<Rightarrow> int \<Rightarrow> limiter" where
  "RateLimiter k mx win = \<lparr>lim_key = ''ratelimit_'' @ k, maxRequests = mx, windowMs = win\<rparr>"

definition setItem :: "string \<Rightarrow> cell \<Rightarrow> storage \<Rightarrow> storage" where
  "setItem k v st = st\<lparr>items := (items st)(k \<mapsto> v)\<rparr>"

text \<open>\<open>now\<close> is what \<^verbatim>\<open>Date.now()\<close> reads in the call.\<close>

definition isAllowed :: "limiter \<Rightarrow> int \<Rightarrow> storage \<Rightarrow> bool \<times> storage" where
  "isAllowed l now st =
     (if \<not> accessible st then (True, st)
      else
        (case items st (lim_key l) of
           None \<Rightarrow> (True, setItem (lim_key l) (Counter 1 (now + windowMs l)) st)
         | Some EmptyText \<Rightarrow> (True, setItem (lim_key l) (Counter 1 (now + windowMs l)) st)
         | Some Broken \<Rightarrow> (True, st)
         | Some (Counter cnt resetAt) \<Rightarrow>
             if now > resetAt
             then (True, setItem (lim_key l) (Counter 1 (now + windowMs l)) st)
             else if cnt \<ge> maxRequests l then (False, st)
             else (True, setItem (lim_key l) (Counter (cnt + 1) resetAt) st)))"

text \<open>A run of calls, one per clock reading, with the answers in order.\<close>

fun calls :: "limiter \<Rightarrow> int list \<Rightarrow> storage \<Rightarrow> bool list \<times> storage" where
  "calls l [] st = ([], st)"
| "calls l (t # ts) st =
     (case isAllowed l t st of
        (b, st1) \<Rightarrow> (case calls l ts st1 of (bs, st2) \<Rightarrow> (b # bs, st2)))"

section \<open>Properties and example data\<close>

text \<open>The three collections hold the same documents.\<close>

definition same_store :: "world \<Rightarrow> world \<Rightarrow> bool" where
  "same_store w w' = (users w' = users w \<and> bans w' = bans w \<and> licenses w' = licenses w)"


text \<open>
  The store finds no user document for the subject (none is there, or the store refuses
  the id), or the privilege flag of the document is missing, false or otherwise falsy.
\<close>

definition not_admin :: "world \<Rightarrow> string \<Rightarrow> bool" where
  "not_admin w uid =
     (case find_user w uid of
        Inr (Some d) \<Rightarrow> \<not> truthy (field d ''isAdmin'')
      | _ \<Rightarrow> True)"

text \<open>
  The answer is an error, the collections are unchanged, and the only call on the record
  store is the read of the subject's user document.
\<close>

definition rejected :: "string \<Rightarrow> response \<times> world \<Rightarrow> world \<Rightarrow> bool" where
  "rejected uid out w =
     (is_error (fst out) \<and> same_store w (snd out) \<and> oplog (snd out) = oplog w @ [GetUser uid])"

text \<open>
  The store finds no user document for the target of a ban (none is there, or the store
  refuses the id), or the privilege flag of the document is truthy.
\<close>

definition target_blocked :: "world \<Rightarrow> string \<Rightarrow> bool" where
  "target_blocked w uid =
     (case find_user w uid of
        Inr (Some d) \<Rightarrow> truthy (field d ''isAdmin'')
      | _ \<Rightarrow> True)"


text \<open>
  The text the sanitizer hands to the purifier: the input trimmed, then without null
  bytes and without control characters.
\<close>

definition cleaned :: "string \<Rightarrow> string" where
  "cleaned x = remove_control (remove_null (trim x))"

text \<open>The \<^verbatim>\<open>duration\<close> member of a request body.\<close>

definition duration_of :: "json \<Rightarrow> json" where
  "duration_of b = (case b of JObj kvs \<Rightarrow> field kvs ''duration'' | _ \<Rightarrow> JUndefined)"

definition is_upper_alnum :: "char \<Rightarrow> bool" where
  "is_upper_alnum c = (is_upper c \<or> is_digit c)"

text \<open>The key format \<^verbatim>\<open>LIC-<digits>-<9 uppercase alphanumerics>\<close>.\<close>

definition key_format :: "string \<Rightarrow> bool" where
  "key_format k =
     (take 4 k = ''LIC-'' \<and>
      (let ds = takeWhile is_digit (drop 4 k); rest = dropWhile is_digit (drop 4 k)
       in ds \<noteq> [] \<and>
          (case rest of
             [] \<Rightarrow> False
           | c # sfx \<Rightarrow> c = CHR ''-'' \<and> length sfx = 9 \<and> list_all is_upper_alnum sfx)))"

text \<open>
  What \<^verbatim>\<open>Math.random().toString(36)\<close> can be: the numeral \<^verbatim>\<open>0\<close>, or \<^verbatim>\<open>0.\<close> followed by
  one or more base-36 digits in lower case.
\<close>

definition random36 :: "string \<Rightarrow> bool" where
  "random36 rnd =
     (rnd = ''0'' \<or>
      (take 2 rnd = ''0.'' \<and> drop 2 rnd \<noteq> [] \<and>
       list_all (\<lambda>c. is_digit c \<or> is_lower c) (drop 2 rnd)))"

definition obj_fields :: "json \<Rightarrow> doc" where
  "obj_fields j = (case j of JObj kvs \<Rightarrow> kvs | _ \<Rightarrow> [])"

text \<open>The five fields of a user document that List Users projects.\<close>

definition projected_fields :: "string list" where
  "projected_fields = [''email'', ''displayName'', ''isAdmin'', ''plan'', ''createdAt'']"

text \<open>
  Example data: an identity provider that knows three tokens, and a store with an
  administrator and an ordinary user, both with fields beyond the projected ones. The
  third token belongs to a subject without a user document.
\<close>

definition example_provider :: "string \<Rightarrow> exn + string" where
  "example_provider tok =
     (if tok = ''token.admin.0001'' then Inr ''uid-admin-0001''
      else if tok = ''token.user.00002'' then Inr ''uid-user-00002''
      else if tok = ''token.ghost.0003'' then Inr ''uid-ghost-0003''
      else Inl (Error ''Decoding Firebase ID token failed''))"

definition example_env :: env where
  "example_env = \<lparr>adminAuth = Some example_provider\<rparr>"

definition example_world :: world where
  "example_world =
     \<lparr>users =
        [(''uid-admin-0001'',
          [(''email'', JStr ''root@example.com''), (''displayName'', JStr ''Root''),
           (''isAdmin'', JBool True), (''plan'', JStr ''Pro''),
           (''createdAt'', JNum 1690000000000), (''stripeCustomerId'', JStr ''cus_1'')]),
         (''uid-user-00002'',
          [(''email'', JStr ''ann@example.com''), (''displayName'', JStr ''Ann''),
           (''isAdmin'', JBool False), (''plan'', JStr ''Free''),
           (''createdAt'', JNum 1695000000000), (''lastIp'', JStr ''203.0.113.7'')])],
      bans = [], licenses = Map.empty, oplog = [], subdocs = []\<rparr>"

definition body_request :: "json \<Rightarrow> request" where
  "body_request b = \<lparr>req_body = b, authorization = None\<rparr>"

definition bearer_request :: "string \<Rightarrow> json \<Rightarrow> request" where
  "bearer_request tok b = \<lparr>req_body = b, authorization = Some (''Bearer '' @ tok)\<rparr>"

definition token_body :: "string \<Rightarrow> json" where
  "token_body tok = JObj [(''idToken'', JStr tok)]"

definition ban_body :: "string \<Rightarrow> string \<Rightarrow> string \<Rightarrow> rat \<Rightarrow> json" where
  "ban_body tok uid rsn d =
     JObj [(''idToken'', JStr tok), (''userId'', JStr uid), (''reason'', JStr rsn),
           (''duration'', JNum d)]"

definition license_body :: "string \<Rightarrow> rat \<Rightarrow> json" where
  "license_body pl days = JObj [(''plan'', JStr pl), (''validityDays'', JNum days)]"

definition empty_storage :: storage where
  "empty_storage = \<lparr>accessible = True, items = Map.empty\<rparr>"

lemmas char_eval =
  code_def in_range_def is_digit_def is_lower_def is_upper_def is_alnum_def is_hex_def
  is_space_def is_word_def is_control_def is_upper_alnum_def upper_def
  char_of_def bit_Suc_0_iff

lemmas schema_eval =
  VerifyAdminSchema_def BanUserSchema_def VerifyAdminSchema_strict_def BanUserSchema_strict_def
  LicenseSchema_def z_object_def z_string_def z_int_def is_integer_def field_def token_format_def
  is_uuid_def trim_def

lemmas request_eval =
  body_request_def bearer_request_def token_body_def ban_body_def license_body_def
  bearer_token_def js_split_def

lemmas store_eval =
  find_user_def doc_segments_def js_split_def contains_def get_user_def logged_def
  add_ban_def store_takes_def new_Date_def

lemmas example_eval =
  example_env_def example_provider_def example_world_def not_admin_def target_blocked_def
  find_user_def doc_segments_def js_split_def contains_def

section \<open>The authorization gate\<close>

lemma verifyAdmin_uninitialised:
  "adminAuth e = None \<Longrightarrow> verifyAdmin e tok w = (Inl (Error ''Admin SDK not initialized''), w)"
  by (simp add: verifyAdmin_def)

lemma verifyAdmin_not_admin:
  "adminAuth e = Some v \<Longrightarrow> v tok = Inr uid \<Longrightarrow> not_admin w uid \<Longrightarrow>
   \<exists>x. verifyAdmin e tok w = (Inl x, logged (GetUser uid) w)"
  by (auto simp: verifyAdmin_def not_admin_def get_user_def split: option.splits sum.splits)

lemma verifyAdmin_admin:
  "adminAuth e = Some v \<Longrightarrow> v tok = Inr uid \<Longrightarrow> \<not> not_admin w uid \<Longrightarrow>
   verifyAdmin e tok w = (Inr uid, logged (GetUser uid) w)"
  by (auto simp: verifyAdmin_def not_admin_def get_user_def split: option.splits sum.splits)



lemma same_store_logged: "same_store w (logged op w)"
  by (simp add: same_store_def logged_def)

text \<open>
  The test on the flag is a test for truthiness: a document whose \<^verbatim>\<open>isAdmin\<close> field is a
  string that is not empty passes it, and one whose field is missing, null, false, zero
  or the empty string does not.
\<close>

lemma flag_truthiness:
  "truthy (field [(''isAdmin'', JStr ''false'')] ''isAdmin'') \<and>
   \<not> truthy (field [(''email'', JStr ''a@b.c'')] ''isAdmin'') \<and>
   \<not> truthy (field [(''isAdmin'', JNull)] ''isAdmin'') \<and>
   \<not> truthy (field [(''isAdmin'', JBool False)] ''isAdmin'') \<and>
   \<not> truthy (field [(''isAdmin'', JNum 0)] ''isAdmin'') \<and>
   \<not> truthy (field [(''isAdmin'', JStr [])] ''isAdmin'')"
  by (simp add: field_def)

text \<open>
  The handlers of the second routes file answer with an error and leave the world as it
  is, for every request.
\<close>

lemma second_routes_file_fails:
  "is_error (fst (handleVerifyAdmin_strict e req w)) \<and>
   snd (handleVerifyAdmin_strict e req w) = w \<and>
   is_error (fst (handleBanUser_strict e t_new t_now req w)) \<and>
   snd (handleBanUser_strict e t_new t_now req w) = w"
  by (simp add: handleVerifyAdmin_strict_def handleBanUser_strict_def split: option.splits)

lemma example_subjects:
  "not_admin example_world ''uid-user-00002'' \<and> not_admin example_world ''uid-ghost-0003'' \<and>
   \<not> not_admin example_world ''uid-admin-0001''"
  by (simp add: example_eval field_def)

text \<open>
  C1. For each of the four admin operations: when the subject of the request's bearer
  token has no user document, or the document's privilege flag is not true (missing,
  false or otherwise falsy), the operation answers with an error and writes nothing.
  The collections stay as they were and the only call on the record store is the read
  of the subject's document. This holds whatever schema the two operations that read
  the token from the body parse it with.
\<close>

theorem non_admin_subject_rejected:
  assumes "adminAuth e = Some v" and "v tok = Inr uid" and "not_admin w uid"
    and "vschema (req_body rqv) = Some tok"
    and "bschema (req_body rqb) = Some r" and "idToken r = tok"
    and "bearer_token rqh = Inr tok"
  shows "rejected uid (handleVerifyAdmin_with vschema e rqv w) w \<and>
         rejected uid (handleBanUser_with bschema e t_new t_now rqb w) w \<and>
         rejected uid (handleGetAllUsers e rqh w) w \<and>
         rejected uid (handleCreateLicense e t_key rnd t_created rqh w) w"
proof -
  obtain x where va: "verifyAdmin e tok w = (Inl x, logged (GetUser uid) w)"
    using verifyAdmin_not_admin [OF assms(1,2,3)] by blast
  have s: "same_store w (logged (GetUser uid) w)" by (rule same_store_logged)
  have l: "oplog (logged (GetUser uid) w) = oplog w @ [GetUser uid]" by (simp add: logged_def)
  have 1: "rejected uid (handleVerifyAdmin_with vschema e rqv w) w"
    using assms(4) s l by (simp add: rejected_def handleVerifyAdmin_with_def va)
  have 2: "rejected uid (handleBanUser_with bschema e t_new t_now rqb w) w"
    using assms(5,6) s l by (simp add: rejected_def handleBanUser_with_def va)
  have 3: "rejected uid (handleGetAllUsers e rqh w) w"
    using assms(7) s l by (simp add: rejected_def handleGetAllUsers_def va)
  have 4: "rejected uid (handleCreateLicense e t_key rnd t_created rqh w) w"
    using assms(7) s l by (simp add: rejected_def handleCreateLicense_def va)
  from 1 2 3 4 show ?thesis by simp
qed

text \<open>
  The instance of C1 for the token of the ordinary user in the example store, whose flag
  is false.
\<close>

theorem non_admin_subject_rejected_witness:
  "adminAuth example_env = Some example_provider \<and>
   example_provider ''token.user.00002'' = Inr ''uid-user-00002'' \<and>
   not_admin example_world ''uid-user-00002'' \<and>
   rejected ''uid-user-00002''
     (handleVerifyAdmin_with VerifyAdminSchema example_env
        (body_request (token_body ''token.user.00002'')) example_world) example_world \<and>
   rejected ''uid-user-00002''
     (handleBanUser_with BanUserSchema example_env 1700000000000 1700000000000
        (body_request (ban_body ''token.user.00002'' ''uid-admin-0001'' ''spamming'' 60))
        example_world) example_world \<and>
   rejected ''uid-user-00002''
     (handleGetAllUsers example_env (bearer_request ''token.user.00002'' JNull) example_world)
     example_world \<and>
   rejected ''uid-user-00002''
     (handleCreateLicense example_env 1700000000000 ''0.4fzyo82mvyr'' 1700000000000
        (bearer_request ''token.user.00002'' JNull) example_world) example_world"
proof -
  have h1: "adminAuth example_env = Some example_provider" by (simp add: example_env_def)
  have h2: "example_provider ''token.user.00002'' = Inr ''uid-user-00002''"
    by (simp add: example_provider_def)
  have h3: "not_admin example_world ''uid-user-00002''" using example_subjects by simp
  have h4: "VerifyAdminSchema (req_body (body_request (token_body ''token.user.00002''))) =
              Some ''token.user.00002''"
    by (simp add: schema_eval request_eval)
  have h5: "BanUserSchema (req_body (body_request
              (ban_body ''token.user.00002'' ''uid-admin-0001'' ''spamming'' 60))) =
            Some \<lparr>idToken = ''token.user.00002'', userId = ''uid-admin-0001'',
                  reason = ''spamming'', duration = 60\<rparr>"
    by (simp add: schema_eval request_eval)
  have h6: "idToken \<lparr>idToken = ''token.user.00002'', userId = ''uid-admin-0001'',
                  reason = ''spamming'', duration = 60\<rparr> = ''token.user.00002''"
    by simp
  have h7: "bearer_token (bearer_request ''token.user.00002'' JNull) = Inr ''token.user.00002''"
    by (simp add: request_eval)
  note inst = non_admin_subject_rejected
    [where e = example_env and v = example_provider and tok = "''token.user.00002''"
       and uid = "''uid-user-00002''" and w = example_world
       and vschema = VerifyAdminSchema and bschema = BanUserSchema
       and rqv = "body_request (token_body ''token.user.00002'')"
       and rqb = "body_request (ban_body ''token.user.00002'' ''uid-admin-0001'' ''spamming'' 60)"
       and r = "\<lparr>idToken = ''token.user.00002'', userId = ''uid-admin-0001'',
                  reason = ''spamming'', duration = 60\<rparr>"
       and rqh = "bearer_request ''token.user.00002'' JNull"]
  from inst [OF h1 h2 h3 h4 h5 h6 h7] h1 h2 h3
  show ?thesis by blast
qed

text \<open>
  C2. When the SDK was not initialised, as with no service-account credential, each of the
  four admin operations answers with an error and makes no call on the record store at
  all, read or write: the world after the operation is the world before it.
\<close>

theorem uninitialised_sdk_fails_closed:
  assumes "adminAuth e = None"
  shows "is_error (fst (handleVerifyAdmin_with vschema e req w)) \<and>
         snd (handleVerifyAdmin_with vschema e req w) = w \<and>
         is_error (fst (handleBanUser_with bschema e t_new t_now req w)) \<and>
         snd (handleBanUser_with bschema e t_new t_now req w) = w \<and>
         is_error (fst (handleGetAllUsers e req w)) \<and>
         snd (handleGetAllUsers e req w) = w \<and>
         is_error (fst (handleCreateLicense e t_key rnd t_created req w)) \<and>
         snd (handleCreateLicense e t_key rnd t_created req w) = w"
proof -
  note va = verifyAdmin_uninitialised [OF assms]
  have 1: "is_error (fst (handleVerifyAdmin_with vschema e req w)) \<and>
           snd (handleVerifyAdmin_with vschema e req w) = w"
    by (simp add: handleVerifyAdmin_with_def va split: option.splits)
  have 2: "is_error (fst (handleBanUser_with bschema e t_new t_now req w)) \<and>
           snd (handleBanUser_with bschema e t_new t_now req w) = w"
    by (simp add: handleBanUser_with_def va split: option.splits)
  have 3: "is_error (fst (handleGetAllUsers e req w)) \<and>
           snd (handleGetAllUsers e req w) = w"
    by (simp add: handleGetAllUsers_def va split: sum.splits)
  have 4: "is_error (fst (handleCreateLicense e t_key rnd t_created req w)) \<and>
           snd (handleCreateLicense e t_key rnd t_created req w) = w"
    by (simp add: handleCreateLicense_def va split: sum.splits)
  from 1 2 3 4 show ?thesis by simp
qed

text \<open>
  The instance of C2 for a start-up without the environment variable and a request that
  carries the administrator's token.
\<close>

theorem uninitialised_sdk_fails_closed_witness:
  "adminAuth (initialize (\<lambda>k. Some example_provider) None) = None \<and>
   is_error (fst (handleBanUser_with BanUserSchema
      (initialize (\<lambda>k. Some example_provider) None) 1700000000000 1700000000000
      (bearer_request ''token.admin.0001''
         (ban_body ''token.admin.0001'' ''uid-user-00002'' ''spamming'' 60))
      example_world)) \<and>
   snd (handleCreateLicense
      (initialize (\<lambda>k. Some example_provider) None) 1700000000000 ''0.4fzyo82mvyr'' 1700000000000
      (bearer_request ''token.admin.0001''
         (ban_body ''token.admin.0001'' ''uid-user-00002'' ''spamming'' 60))
      example_world) = example_world"
proof -
  have h: "adminAuth (initialize (\<lambda>k. Some example_provider) None) = None"
    by (simp add: initialize_def)
  note inst = uninitialised_sdk_fails_closed
    [where e = "initialize (\<lambda>k. Some example_provider) None" and w = example_world]
  from inst [OF h] h show ?thesis by blast
qed

section \<open>Ban User\<close>










text \<open>
  A ban whose expiry lies beyond the year 9999 is refused by the store: the answer is
  400 and no ban is written.
\<close>

lemma ban_refused_beyond_store_range:
  "handleBanUser example_env 1700000000000 1700000000000
     (body_request (ban_body ''token.admin.0001'' ''uid-user-00002'' ''spamming'' 8638300000001))
     example_world =
   (Fail 400 ''Failed to ban user'' (Some StoreError),
    example_world\<lparr>oplog := [GetUser ''uid-admin-0001'', GetUser ''uid-user-00002'']\<rparr>)"
  by (simp add: handleBanUser_def handleBanUser_with_def verifyAdmin_def truthy.simps
      store_eval schema_eval request_eval
      example_env_def example_provider_def example_world_def Let_def)





lemma z_int_Some: "z_int v = Some d \<Longrightarrow> v = JNum (of_int d)"
  by (auto simp: z_int_def is_integer_def split: json.splits if_splits)

lemma strict_schema_accepts:
  "BanUserSchema_strict b = Some r \<Longrightarrow>
     duration_of b = JNum (of_int (duration r)) \<and> 1 \<le> duration r \<and> duration r \<le> 36500"
  by (auto simp: BanUserSchema_strict_def duration_of_def z_object_def
           split: option.splits json.splits if_splits dest: z_int_Some)

lemma schema_accepts:
  "BanUserSchema b = Some r \<Longrightarrow>
     duration_of b = JNum (of_int (duration r)) \<and> 1 \<le> duration r"
  by (auto simp: BanUserSchema_def duration_of_def z_object_def
           split: option.splits json.splits if_splits dest: z_int_Some)

text \<open>
  C5, as amended. Under the strict schema a request that passes validation has a duration
  that is an integer from 1 to 36500. Under the schema of \<^verbatim>\<open>server/routes/admin.ts\<close> it
  has a duration that is an integer of at least 1, with no upper bound. Under either
  schema a request that fails validation is answered 400 with the validation error, and
  nothing else happens: the world is unchanged and the token is not looked at.
\<close>

theorem ban_duration_bounds:
  "(BanUserSchema_strict (req_body req) = Some r \<longrightarrow>
      duration_of (req_body req) = JNum (of_int (duration r)) \<and>
      1 \<le> duration r \<and> duration r \<le> 36500) \<and>
   (BanUserSchema (req_body req) = Some r \<longrightarrow>
      duration_of (req_body req) = JNum (of_int (duration r)) \<and> 1 \<le> duration r) \<and>
   (BanUserSchema_strict (req_body req) = None \<longrightarrow>
      handleBanUser_strict e t_new t_now req w =
        (Fail 400 ''Failed to ban user'' (Some ZodError), w)) \<and>
   (BanUserSchema (req_body req) = None \<longrightarrow>
      handleBanUser e t_new t_now req w =
        (Fail 400 ''Failed to ban user'' (Some ZodError), w))"
  using strict_schema_accepts [of "req_body req" r] schema_accepts [of "req_body req" r]
  by (simp add: handleBanUser_strict_def handleBanUser_def handleBanUser_with_def)

text \<open>
  Instances of the amended C5: the strict schema accepts 36500 and rejects 36501, the
  other schema rejects 0, and the rejected requests are answered 400 with the world
  unchanged.
\<close>

theorem ban_duration_bounds_witness:
  "BanUserSchema_strict (req_body (body_request
      (ban_body ''token.admin.0001'' ''uid-user-00002'' ''spamming'' 36500))) =
     Some \<lparr>idToken = ''token.admin.0001'', userId = ''uid-user-00002'',
           reason = ''spamming'', duration = 36500\<rparr> \<and>
   duration_of (req_body (body_request
      (ban_body ''token.admin.0001'' ''uid-user-00002'' ''spamming'' 36500))) = JNum 36500 \<and>
   BanUserSchema_strict (req_body (body_request
      (ban_body ''token.admin.0001'' ''uid-user-00002'' ''spamming'' 36501))) = None \<and>
   handleBanUser_strict example_env 1700000000000 1700000000000
     (body_request (ban_body ''token.admin.0001'' ''uid-user-00002'' ''spamming'' 36501))
     example_world = (Fail 400 ''Failed to ban user'' (Some ZodError), example_world) \<and>
   BanUserSchema (req_body (body_request
      (ban_body ''token.admin.0001'' ''uid-user-00002'' ''spamming'' 0))) = None \<and>
   handleBanUser example_env 1700000000000 1700000000000
     (body_request (ban_body ''token.admin.0001'' ''uid-user-00002'' ''spamming'' 0))
     example_world = (Fail 400 ''Failed to ban user'' (Some ZodError), example_world)"
proof -
  let ?r = "\<lparr>idToken = ''token.admin.0001'', userId = ''uid-user-00002'',
              reason = ''spamming'', duration = 36500\<rparr>"
  let ?ok = "body_request (ban_body ''token.admin.0001'' ''uid-user-00002'' ''spamming'' 36500)"
  let ?over = "body_request (ban_body ''token.admin.0001'' ''uid-user-00002'' ''spamming'' 36501)"
  let ?zero = "body_request (ban_body ''token.admin.0001'' ''uid-user-00002'' ''spamming'' 0)"
  have h1: "BanUserSchema_strict (req_body ?ok) = Some ?r"
    by (simp add: schema_eval request_eval char_eval)
  have h2: "BanUserSchema_strict (req_body ?over) = None"
    by (simp add: schema_eval request_eval char_eval)
  have h3: "BanUserSchema (req_body ?zero) = None"
    by (simp add: schema_eval request_eval)
  have c1: "duration_of (req_body ?ok) = JNum 36500"
    using ban_duration_bounds [where req = ?ok and r = ?r] h1 by simp
  have c2: "handleBanUser_strict example_env 1700000000000 1700000000000 ?over example_world =
              (Fail 400 ''Failed to ban user'' (Some ZodError), example_world)"
    using ban_duration_bounds [where req = ?over] h2 by simp
  have c3: "handleBanUser example_env 1700000000000 1700000000000 ?zero example_world =
              (Fail 400 ''Failed to ban user'' (Some ZodError), example_world)"
    using ban_duration_bounds [where req = ?zero] h3 by simp
  from h1 c1 h2 c2 h3 c3 show ?thesis by (intro conjI)
qed

text \<open>
  C5 as stated fails on \<^verbatim>\<open>server/routes/admin.ts\<close>: its schema accepts the duration 36501,
  and the ban is written.
\<close>

theorem ban_duration_counterexample:
  "BanUserSchema (req_body (body_request
      (ban_body ''token.admin.0001'' ''uid-user-00002'' ''spamming'' 36501))) =
     Some \<lparr>idToken = ''token.admin.0001'', userId = ''uid-user-00002'',
           reason = ''spamming'', duration = 36501\<rparr> \<and>
   map ban_duration
     (bans (snd (handleBanUser example_env 1700000000000 1700000000000
        (body_request (ban_body ''token.admin.0001'' ''uid-user-00002'' ''spamming'' 36501))
        example_world))) = [36501]"
  by (simp add: handleBanUser_def handleBanUser_with_def verifyAdmin_def truthy.simps
      store_eval schema_eval request_eval
      example_env_def example_provider_def example_world_def Let_def)

section \<open>Create License\<close>

lemma show_nat_digits: "list_all is_digit (show_nat n) \<and> show_nat n \<noteq> []"
proof (induction n rule: show_nat.induct)
  case (1 n)
  have d: "is_digit (char_of (48 + k))" if "k < 10" for k :: nat
    using that by (simp add: is_digit_def in_range_def code_def)
  show ?case
  proof (cases "n < 10")
    case True
    then show ?thesis using d [of n] by (subst show_nat.simps, subst show_nat.simps) simp
  next
    case False
    then show ?thesis using 1 d [of "n mod 10"]
      by (subst show_nat.simps, subst (2) show_nat.simps) simp
  qed
qed

lemma code_char_of: "n < 256 \<Longrightarrow> code (char_of n) = n"
  by (simp add: code_def)

lemma upper_of_lower:
  assumes "is_lower c"
  shows "is_upper (char_of (code c - 32))"
proof -
  have lo: "97 \<le> code c" and hi: "code c \<le> 122"
    using assms by (simp_all add: is_lower_def in_range_def code_def)
  from hi have "code c - 32 < 256" by linarith
  then have eq: "code (char_of (code c - 32)) = code c - 32" by (rule code_char_of)
  have A: "code CHR ''A'' = 65" and Z: "code CHR ''Z'' = 90" by (simp_all add: code_def)
  from lo hi have "65 \<le> code c - 32" and "code c - 32 \<le> 90" by linarith+
  then show ?thesis unfolding is_upper_def in_range_def eq A Z by simp
qed

lemma toUpperCase_alnum:
  "list_all (\<lambda>c. is_digit c \<or> is_lower c) s \<Longrightarrow> list_all is_upper_alnum (toUpperCase s)"
  by (induction s) (auto simp: toUpperCase_def is_upper_alnum_def upper_of_lower)

lemma suffix_of_random36:
  assumes "random36 rnd"
  shows "length (toUpperCase (substr rnd 2 9)) = min 9 (length rnd - 2) \<and>
         list_all is_upper_alnum (toUpperCase (substr rnd 2 9))"
proof -
  have len: "length (toUpperCase (substr rnd 2 9)) = min 9 (length rnd - 2)"
    by (simp add: toUpperCase_def substr_def min.commute)
  have "list_all (\<lambda>c. is_digit c \<or> is_lower c) (drop 2 rnd)"
    using assms by (auto simp: random36_def)
  then have "list_all (\<lambda>c. is_digit c \<or> is_lower c) (take 9 (drop 2 rnd))"
    by (auto simp: list_all_iff dest: in_set_takeD)
  then have "list_all is_upper_alnum (toUpperCase (substr rnd 2 9))"
    unfolding substr_def by (rule toUpperCase_alnum)
  with len show ?thesis by simp
qed

lemma key_format_of_parts:
  assumes "list_all is_digit ds" "ds \<noteq> []" "length sfx = 9" "list_all is_upper_alnum sfx"
  shows "key_format (''LIC-'' @ ds @ ''-'' @ sfx)"
proof -
  have nd: "\<not> is_digit CHR ''-''" by (simp add: is_digit_def in_range_def code_def)
  have tw: "takeWhile is_digit (ds @ CHR ''-'' # sfx) = ds"
    using assms(1) nd by (simp add: list_all_iff)
  have dw: "dropWhile is_digit (ds @ CHR ''-'' # sfx) = CHR ''-'' # sfx"
    using assms(1) nd by (simp add: list_all_iff)
  show ?thesis using assms tw dw by (simp add: key_format_def)
qed

text \<open>
  C6, as amended. The licence document that Create License writes has \<^verbatim>\<open>used\<close> false and
  \<^verbatim>\<open>usedBy\<close> and \<^verbatim>\<open>usedAt\<close> null. With a clock that does not run before the epoch, its
  key is \<^verbatim>\<open>LIC-\<close>, the decimal digits of the clock reading, a hyphen, and a suffix of upper
  case letters and digits: the first nine base-36 digits of the random number after its
  \<^verbatim>\<open>0.\<close>, or all of them when there are fewer than nine. The key has the format
  \<^verbatim>\<open>LIC-<digits>-<9 uppercase alphanumerics>\<close> whenever the random number prints with nine
  digits or more.
\<close>

theorem license_created_unused:
  assumes "adminAuth e = Some v" and "v tok = Inr adminUid" and "\<not> not_admin w adminUid"
    and "bearer_token req = Inr tok"
    and "LicenseSchema (req_body req) = Some (plan, days)"
    and "random36 rnd" and "0 \<le> t_key"
  shows "snd (handleCreateLicense e t_key rnd t_created req w) =
           set_license (make_key t_key rnd)
             \<lparr>lic_key = make_key t_key rnd, lic_plan = plan, validityDays = days,
              createdBy = adminUid, createdAt = new_Date t_created,
              used = False, usedBy = None, usedAt = None\<rparr>
             (logged (GetUser adminUid) w) \<and>
         make_key t_key rnd = ''LIC-'' @ show_int t_key @ ''-'' @ toUpperCase (substr rnd 2 9) \<and>
         list_all is_digit (show_int t_key) \<and> show_int t_key \<noteq> [] \<and>
         list_all is_upper_alnum (toUpperCase (substr rnd 2 9)) \<and>
         length (toUpperCase (substr rnd 2 9)) = min 9 (length rnd - 2) \<and>
         (11 \<le> length rnd \<longrightarrow> key_format (make_key t_key rnd))"
proof -
  have va: "verifyAdmin e tok w = (Inr adminUid, logged (GetUser adminUid) w)"
    using assms(1,2,3) by (rule verifyAdmin_admin)
  have out: "snd (handleCreateLicense e t_key rnd t_created req w) =
           set_license (make_key t_key rnd)
             \<lparr>lic_key = make_key t_key rnd, lic_plan = plan, validityDays = days,
              createdBy = adminUid, createdAt = new_Date t_created,
              used = False, usedBy = None, usedAt = None\<rparr>
             (logged (GetUser adminUid) w)"
    using assms(4,5) va by (simp add: handleCreateLicense_def Let_def)
  have digits: "list_all is_digit (show_int t_key) \<and> show_int t_key \<noteq> []"
    using assms(7) show_nat_digits [of "nat t_key"] by (simp add: show_int_def)
  note sfx = suffix_of_random36 [OF assms(6)]
  have fmt: "key_format (make_key t_key rnd)" if "11 \<le> length rnd"
  proof -
    have "length (toUpperCase (substr rnd 2 9)) = 9" using sfx that by simp
    then show ?thesis unfolding make_key_def
      using digits sfx by (intro key_format_of_parts) simp_all
  qed
  show ?thesis using out digits sfx fmt by (simp add: make_key_def)
qed

text \<open>
  The instance of the amended C6 for the spec's example, plan Pro for 30 days, with a
  random number that prints with eleven digits.
\<close>

theorem license_created_unused_witness:
  "random36 ''0.4fzyo82mvyr'' \<and>
   LicenseSchema (license_body ''Pro'' 30) = Some (''Pro'', 30) \<and>
   make_key 1700000000000 ''0.4fzyo82mvyr'' = ''LIC-1700000000000-4FZYO82MV'' \<and>
   key_format (make_key 1700000000000 ''0.4fzyo82mvyr'') \<and>
   licenses (snd (handleCreateLicense example_env 1700000000000 ''0.4fzyo82mvyr'' 1700000000002
      (bearer_request ''token.admin.0001'' (license_body ''Pro'' 30)) example_world))
     ''LIC-1700000000000-4FZYO82MV'' =
     Some \<lparr>lic_key = ''LIC-1700000000000-4FZYO82MV'', lic_plan = ''Pro'', validityDays = 30,
           createdBy = ''uid-admin-0001'', createdAt = Date 1700000000002,
           used = False, usedBy = None, usedAt = None\<rparr>"
proof -
  let ?req = "bearer_request ''token.admin.0001'' (license_body ''Pro'' 30)"
  have h1: "adminAuth example_env = Some example_provider" by (simp add: example_env_def)
  have h2: "example_provider ''token.admin.0001'' = Inr ''uid-admin-0001''"
    by (simp add: example_provider_def)
  have h3: "\<not> not_admin example_world ''uid-admin-0001''" using example_subjects by simp
  have h4: "bearer_token ?req = Inr ''token.admin.0001''" by (simp add: request_eval)
  have h5: "LicenseSchema (req_body ?req) = Some (''Pro'', 30)"
    by (simp add: schema_eval request_eval)
  have h5': "LicenseSchema (license_body ''Pro'' 30) = Some (''Pro'', 30)"
    by (simp add: schema_eval request_eval)
  have h6: "random36 ''0.4fzyo82mvyr''" by (simp add: random36_def char_eval)
  have h7: "(0::int) \<le> 1700000000000" by simp
  have k: "make_key 1700000000000 ''0.4fzyo82mvyr'' = ''LIC-1700000000000-4FZYO82MV''"
    by (simp add: make_key_def show_int_def show_nat.simps toUpperCase_def substr_def char_eval)
  note inst = license_created_unused
    [where e = example_env and v = example_provider and tok = "''token.admin.0001''"
       and adminUid = "''uid-admin-0001''" and w = example_world and req = ?req
       and plan = "''Pro''" and days = 30 and rnd = "''0.4fzyo82mvyr''"
       and t_key = 1700000000000 and t_created = 1700000000002,
     OF h1 h2 h3 h4 h5 h6 h7]
  have fmt: "key_format (make_key 1700000000000 ''0.4fzyo82mvyr'')"
    by (rule inst [THEN conjunct2, THEN conjunct2, THEN conjunct2, THEN conjunct2,
                   THEN conjunct2, THEN conjunct2, THEN mp]) simp
  have lic: "licenses (snd (handleCreateLicense example_env 1700000000000 ''0.4fzyo82mvyr''
      1700000000002 ?req example_world)) ''LIC-1700000000000-4FZYO82MV'' =
     Some \<lparr>lic_key = ''LIC-1700000000000-4FZYO82MV'', lic_plan = ''Pro'', validityDays = 30,
           createdBy = ''uid-admin-0001'', createdAt = Date 1700000000002,
           used = False, usedBy = None, usedAt = None\<rparr>"
    unfolding inst [THEN conjunct1] k
    by (simp add: set_license_def logged_def new_Date_def)
  from h6 h5' k fmt lic show ?thesis by (intro conjI)
qed

text \<open>
  C6 as stated fails: when \<^verbatim>\<open>Math.random()\<close> returns one half, which prints as \<^verbatim>\<open>0.i\<close> in
  base 36, the key ends in the single character \<^verbatim>\<open>I\<close> and has not the stated format.
\<close>

theorem license_key_counterexample:
  "fst (handleCreateLicense example_env 1700000000000 ''0.i'' 1700000000002
      (bearer_request ''token.admin.0001'' (license_body ''Pro'' 30)) example_world) =
     Json (JObj [(''success'', JBool True), (''licenseKey'', JStr ''LIC-1700000000000-I'')]) \<and>
   \<not> key_format ''LIC-1700000000000-I''"
  by (simp add: handleCreateLicense_def verifyAdmin_def store_eval set_license_def
      make_key_def show_int_def show_nat.simps toUpperCase_def substr_def key_format_def
      truthy.simps schema_eval request_eval char_eval
      example_env_def example_provider_def example_world_def Let_def)

section \<open>List Users\<close>

lemma project_user_keys:
  "map fst (obj_fields (project_user (uid, d))) = ''uid'' # projected_fields"
  by (simp add: project_user_def obj_fields_def projected_fields_def)

lemma project_user_uid:
  "field (obj_fields (project_user (uid, d))) ''uid'' = JStr uid"
  by (simp add: project_user_def obj_fields_def field_def)

lemma project_user_field:
  "k \<in> set projected_fields \<Longrightarrow> field (obj_fields (project_user (uid, d))) k = field d k"
  by (auto simp: project_user_def obj_fields_def field_def projected_fields_def)

lemma project_user_other:
  "k \<notin> set (''uid'' # projected_fields) \<Longrightarrow>
   field (obj_fields (project_user (uid, d))) k = JUndefined"
  by (auto simp: project_user_def obj_fields_def field_def projected_fields_def)

text \<open>
  C7. For a verified administrator, List Users answers with one object per user document,
  in order. Each object has the document id under \<^verbatim>\<open>uid\<close> and, of the stored document,
  exactly the five projected fields \<^verbatim>\<open>email\<close>, \<^verbatim>\<open>displayName\<close>, \<^verbatim>\<open>isAdmin\<close>, \<^verbatim>\<open>plan\<close> and
  \<^verbatim>\<open>createdAt\<close>, each with the stored value; it has no other key, whatever further fields
  the document holds.
\<close>

theorem list_users_projection:
  assumes "adminAuth e = Some v" and "v tok = Inr adminUid" and "\<not> not_admin w adminUid"
    and "bearer_token req = Inr tok"
  shows "fst (handleGetAllUsers e req w) =
           Json (JObj [(''success'', JBool True),
                       (''users'', JArr (map project_user (users w)))]) \<and>
         (\<forall>p \<in> set (users w).
            map fst (obj_fields (project_user p)) = ''uid'' # projected_fields \<and>
            field (obj_fields (project_user p)) ''uid'' = JStr (fst p) \<and>
            (\<forall>k \<in> set projected_fields.
               field (obj_fields (project_user p)) k = field (snd p) k) \<and>
            (\<forall>k. k \<notin> set (''uid'' # projected_fields) \<longrightarrow>
               field (obj_fields (project_user p)) k = JUndefined))"
proof -
  have va: "verifyAdmin e tok w = (Inr adminUid, logged (GetUser adminUid) w)"
    using assms(1,2,3) by (rule verifyAdmin_admin)
  have resp: "fst (handleGetAllUsers e req w) =
           Json (JObj [(''success'', JBool True),
                       (''users'', JArr (map project_user (users w)))])"
    using assms(4) va by (simp add: handleGetAllUsers_def get_all_users_def logged_def)
  have each: "map fst (obj_fields (project_user p)) = ''uid'' # projected_fields \<and>
            field (obj_fields (project_user p)) ''uid'' = JStr (fst p) \<and>
            (\<forall>k \<in> set projected_fields.
               field (obj_fields (project_user p)) k = field (snd p) k) \<and>
            (\<forall>k. k \<notin> set (''uid'' # projected_fields) \<longrightarrow>
               field (obj_fields (project_user p)) k = JUndefined)" for p
  proof (cases p)
    case (Pair uid d)
    show ?thesis unfolding Pair
      using project_user_keys [of uid d] project_user_uid [of uid d]
        project_user_field [of _ uid d] project_user_other [of _ uid d]
      by simp
  qed
  from resp each show ?thesis by blast
qed

text \<open>
  The instance of C7 for the example store: the fields \<^verbatim>\<open>stripeCustomerId\<close> and \<^verbatim>\<open>lastIp\<close>
  of the stored documents are not in the answer.
\<close>

theorem list_users_projection_witness:
  "bearer_token (bearer_request ''token.admin.0001'' JNull) = Inr ''token.admin.0001'' \<and>
   fst (handleGetAllUsers example_env (bearer_request ''token.admin.0001'' JNull) example_world) =
     Json (JObj [(''success'', JBool True),
       (''users'', JArr
          [JObj [(''uid'', JStr ''uid-admin-0001''), (''email'', JStr ''root@example.com''),
                 (''displayName'', JStr ''Root''), (''isAdmin'', JBool True),
                 (''plan'', JStr ''Pro''), (''createdAt'', JNum 1690000000000)],
           JObj [(''uid'', JStr ''uid-user-00002''), (''email'', JStr ''ann@example.com''),
                 (''displayName'', JStr ''Ann''), (''isAdmin'', JBool False),
                 (''plan'', JStr ''Free''), (''createdAt'', JNum 1695000000000)]])]) \<and>
   field (obj_fields (project_user (users example_world ! 0))) ''stripeCustomerId'' = JUndefined"
proof -
  let ?req = "bearer_request ''token.admin.0001'' JNull"
  have h1: "adminAuth example_env = Some example_provider" by (simp add: example_env_def)
  have h2: "example_provider ''token.admin.0001'' = Inr ''uid-admin-0001''"
    by (simp add: example_provider_def)
  have h3: "\<not> not_admin example_world ''uid-admin-0001''" using example_subjects by simp
  have h4: "bearer_token ?req = Inr ''token.admin.0001''" by (simp add: request_eval)
  note inst = list_users_projection
    [where e = example_env and v = example_provider and tok = "''token.admin.0001''"
       and adminUid = "''uid-admin-0001''" and w = example_world and req = ?req,
     OF h1 h2 h3 h4]
  have resp: "fst (handleGetAllUsers example_env ?req example_world) =
     Json (JObj [(''success'', JBool True),
       (''users'', JArr
          [JObj [(''uid'', JStr ''uid-admin-0001''), (''email'', JStr ''root@example.com''),
                 (''displayName'', JStr ''Root''), (''isAdmin'', JBool True),
                 (''plan'', JStr ''Pro''), (''createdAt'', JNum 1690000000000)],
           JObj [(''uid'', JStr ''uid-user-00002''), (''email'', JStr ''ann@example.com''),
                 (''displayName'', JStr ''Ann''), (''isAdmin'', JBool False),
                 (''plan'', JStr ''Free''), (''createdAt'', JNum 1695000000000)]])])"
    unfolding inst [THEN conjunct1]
    by (simp add: example_world_def project_user_def field_def)
  have mem: "users example_world ! 0 \<in> set (users example_world)"
    by (simp add: example_world_def)
  have nk: "''stripeCustomerId'' \<notin> set (''uid'' # projected_fields)"
    by (simp add: projected_fields_def)
  have leak: "field (obj_fields (project_user (users example_world ! 0))) ''stripeCustomerId'' =
              JUndefined"
    using inst [THEN conjunct2, rule_format, OF mem] nk by blast
  from h4 resp leak show ?thesis by (intro conjI)
qed

section \<open>The sanitizer\<close>

lemma filter_keeps_all: "\<not> list_ex P s \<Longrightarrow> filter (\<lambda>c. \<not> P c) s = s"
  by (induction s) auto

lemma set_trim: "set (trim s) \<subseteq> set s"
proof -
  have "set (dropWhile is_space (rev (dropWhile is_space s))) \<subseteq> set (rev (dropWhile is_space s))"
    by (auto dest: set_dropWhileD)
  moreover have "set (dropWhile is_space s) \<subseteq> set s"
    by (auto dest: set_dropWhileD)
  ultimately show ?thesis by (auto simp: trim_def)
qed

lemma control_free_trim: "\<not> list_ex is_control s \<Longrightarrow> \<not> list_ex is_control (trim s)"
  using set_trim [of s] by (auto simp: list_ex_iff)

lemma remove_control_id: "\<not> list_ex is_control s \<Longrightarrow> remove_control s = s"
  unfolding remove_control_def by (rule filter_keeps_all)

lemma remove_null_id:
  assumes "\<not> list_ex is_control s"
  shows "remove_null s = s"
proof -
  have "\<not> list_ex (\<lambda>c. code c = 0) s"
    using assms by (auto simp: list_ex_iff is_control_def)
  then show ?thesis unfolding remove_null_def by (rule filter_keeps_all)
qed

lemma dropWhile_front:
  "dropWhile P (rev (dropWhile P (rev (dropWhile P s)))) = rev (dropWhile P (rev (dropWhile P s)))"
proof -
  let ?z = "dropWhile P s"
  let ?y = "rev (dropWhile P (rev ?z))"
  show "dropWhile P ?y = ?y"
  proof (cases "?y = []")
    case True
    show ?thesis by (simp only: True dropWhile.simps)
  next
    case False
    have parts: "?z = ?y @ rev (takeWhile P (rev ?z))"
      by (metis rev_append rev_rev_ident takeWhile_dropWhile_id)
    then have "hd ?z = hd ?y" using False by (metis hd_append2)
    moreover have "?z \<noteq> []" using parts False by (metis Nil_is_append_conv)
    ultimately have "\<not> P (hd ?y)" using hd_dropWhile [of P s] by simp
    then show ?thesis using False by (cases ?y) auto
  qed
qed

lemma trim_trim: "trim (trim s) = trim s"
proof -
  let ?y = "rev (dropWhile is_space (rev (dropWhile is_space s)))"
  have 1: "dropWhile is_space ?y = ?y" by (rule dropWhile_front)
  have 2: "dropWhile is_space (rev ?y) = rev ?y" by simp
  show ?thesis unfolding trim_def 1 2 by simp
qed

text \<open>
  Whatever the purifier, as long as it leaves the two plain texts \<^verbatim>\<open>a\<close> and \<^verbatim>\<open>a \<close> (with
  its trailing space) as they are, a second pass of the sanitizer changes the result of the first.
\<close>

lemma sanitizeInput_second_pass:
  assumes "purify ''a '' = ''a ''" and "purify ''a'' = ''a''"
  shows "sanitizeInput purify [CHR ''a'', CHR '' '', CHR 0x01] = ''a '' \<and>
         sanitizeInput purify (sanitizeInput purify [CHR ''a'', CHR '' '', CHR 0x01]) = ''a''"
  using assms
  by (simp add: sanitizeInput_def trim_def remove_null_def remove_control_def
      is_control_def is_space_def code_def)

lemma cleaned_control_free: "\<not> list_ex is_control (cleaned x)"
  by (simp add: cleaned_def remove_control_def list_ex_iff)

lemma cleaned_of_clean:
  assumes "\<not> list_ex is_control y"
  shows "cleaned y = trim y"
proof -
  have "\<not> list_ex is_control (trim y)" using assms by (rule control_free_trim)
  then show ?thesis by (simp add: cleaned_def remove_null_id remove_control_id)
qed

lemma sanitizeInput_cleaned:
  "sanitizeInput purify x = (if x = [] then [] else purify (cleaned x))"
  by (simp add: sanitizeInput_def cleaned_def)

text \<open>
  C8, as amended. Write c(x) for the input trimmed and then freed of null bytes and of
  the control characters. If the purifier leaves c(x) and its trimmed form unchanged, as
  it does for text without markup, then the sanitizer returns c(x), and sanitizing the
  result again returns the same exactly when c(x) neither begins nor ends with white
  space. In general, sanitizing the result again returns the same whenever the result
  neither begins nor ends with white space, holds none of the removed control
  characters, and is left unchanged by the purifier.
\<close>

theorem sanitize_second_pass:
  "(purify (cleaned x) = cleaned x \<and> purify (trim (cleaned x)) = trim (cleaned x) \<longrightarrow>
      sanitizeInput purify x = cleaned x \<and>
      (sanitizeInput purify (sanitizeInput purify x) = sanitizeInput purify x \<longleftrightarrow>
         trim (cleaned x) = cleaned x)) \<and>
   (trim (sanitizeInput purify x) = sanitizeInput purify x \<and>
    \<not> list_ex is_control (sanitizeInput purify x) \<and>
    purify (sanitizeInput purify x) = sanitizeInput purify x \<longrightarrow>
      sanitizeInput purify (sanitizeInput purify x) = sanitizeInput purify x)"
proof -
  have e: "cleaned [] = []"
    by (simp add: cleaned_def trim_def remove_null_def remove_control_def)
  have plain: "sanitizeInput purify x = cleaned x \<and>
      (sanitizeInput purify (sanitizeInput purify x) = sanitizeInput purify x \<longleftrightarrow>
         trim (cleaned x) = cleaned x)"
    if p1: "purify (cleaned x) = cleaned x" and p2: "purify (trim (cleaned x)) = trim (cleaned x)"
  proof -
    have one: "sanitizeInput purify x = cleaned x"
      using p1 e by (simp add: sanitizeInput_cleaned)
    have again: "cleaned (cleaned x) = trim (cleaned x)"
      using cleaned_control_free by (rule cleaned_of_clean)
    have t: "trim [] = []" by (simp add: trim_def)
    have two: "sanitizeInput purify (cleaned x) = trim (cleaned x)"
      using p2 again t by (simp add: sanitizeInput_cleaned)
    from one two show ?thesis by auto
  qed
  have general: "sanitizeInput purify (sanitizeInput purify x) = sanitizeInput purify x"
    if g1: "trim (sanitizeInput purify x) = sanitizeInput purify x"
      and g2: "\<not> list_ex is_control (sanitizeInput purify x)"
      and g3: "purify (sanitizeInput purify x) = sanitizeInput purify x"
  proof -
    have "cleaned (sanitizeInput purify x) = sanitizeInput purify x"
      using cleaned_of_clean [OF g2] g1 by simp
    then show ?thesis
      using g3 by (simp add: sanitizeInput_cleaned [of purify "sanitizeInput purify x"])
  qed
  from plain general show ?thesis by blast
qed

text \<open>
  Instances of the amended C8. The input \<^verbatim>\<open>a\<close>, U+0001, \<^verbatim>\<open>b\<close> loses its control character
  and is then stable; the input \<^verbatim>\<open><b>hi</b>\<close> loses its tags and is then stable.
\<close>

theorem sanitize_second_pass_witness:
  "cleaned [CHR ''a'', CHR 0x01, CHR ''b''] = ''ab'' \<and>
   strip_markup ''ab'' = ''ab'' \<and> trim ''ab'' = ''ab'' \<and>
   sanitizeInput strip_markup [CHR ''a'', CHR 0x01, CHR ''b''] = ''ab'' \<and>
   sanitizeInput strip_markup (sanitizeInput strip_markup [CHR ''a'', CHR 0x01, CHR ''b'']) =
     sanitizeInput strip_markup [CHR ''a'', CHR 0x01, CHR ''b''] \<and>
   sanitizeInput strip_markup ''<b>hi</b>'' = ''hi'' \<and>
   sanitizeInput strip_markup (sanitizeInput strip_markup ''<b>hi</b>'') =
     sanitizeInput strip_markup ''<b>hi</b>''"
proof -
  let ?x = "[CHR ''a'', CHR 0x01, CHR ''b'']"
  have c: "cleaned ?x = ''ab''"
    by (simp add: cleaned_def trim_def remove_null_def remove_control_def char_eval)
  have p: "strip_markup ''ab'' = ''ab''" by (simp add: strip_markup_def)
  have t: "trim ''ab'' = ''ab''" by (simp add: trim_def char_eval)
  have h1: "strip_markup (cleaned ?x) = cleaned ?x" unfolding c by (rule p)
  have h2: "strip_markup (trim (cleaned ?x)) = trim (cleaned ?x)" unfolding c t by (rule p)
  have h3: "trim (cleaned ?x) = cleaned ?x" unfolding c by (rule t)
  note plain = sanitize_second_pass
    [where purify = strip_markup and x = ?x, THEN conjunct1, THEN mp, OF conjI, OF h1 h2]
  have r1: "sanitizeInput strip_markup ?x = ''ab''"
    using plain [THEN conjunct1] c by simp
  have r2: "sanitizeInput strip_markup (sanitizeInput strip_markup ?x) =
     sanitizeInput strip_markup ?x"
    using plain [THEN conjunct2] h3 by blast
  have s: "sanitizeInput strip_markup ''<b>hi</b>'' = ''hi''"
    by (simp add: sanitizeInput_def strip_markup_def trim_def remove_null_def
        remove_control_def char_eval)
  have g1: "trim (sanitizeInput strip_markup ''<b>hi</b>'') =
            sanitizeInput strip_markup ''<b>hi</b>''"
    unfolding s by (simp add: trim_def char_eval)
  have g2: "\<not> list_ex is_control (sanitizeInput strip_markup ''<b>hi</b>'')"
    unfolding s by (simp add: char_eval)
  have g3: "strip_markup (sanitizeInput strip_markup ''<b>hi</b>'') =
            sanitizeInput strip_markup ''<b>hi</b>''"
    unfolding s by (simp add: strip_markup_def)
  have r3: "sanitizeInput strip_markup (sanitizeInput strip_markup ''<b>hi</b>'') =
     sanitizeInput strip_markup ''<b>hi</b>''"
    using sanitize_second_pass
      [where purify = strip_markup and x = "''<b>hi</b>''", THEN conjunct2] g1 g2 g3
    by blast
  from c p t r1 r2 s r3 show ?thesis by (intro conjI)
qed

text \<open>
  C8 as stated fails: on the input \<^verbatim>\<open>a\<close>, space, U+0001 the first pass removes the control
  character and leaves \<^verbatim>\<open>a\<close> with a trailing space, which the second pass trims.
\<close>

theorem sanitize_idempotent_counterexample:
  "sanitizeInput strip_markup [CHR ''a'', CHR '' '', CHR 0x01] = ''a '' \<and>
   sanitizeInput strip_markup (sanitizeInput strip_markup [CHR ''a'', CHR '' '', CHR 0x01]) = ''a'' \<and>
   sanitizeInput strip_markup (sanitizeInput strip_markup [CHR ''a'', CHR '' '', CHR 0x01])
     \<noteq> sanitizeInput strip_markup [CHR ''a'', CHR '' '', CHR 0x01]"
  by (simp add: sanitizeInput_def strip_markup_def trim_def remove_null_def remove_control_def
      is_control_def is_space_def code_def)

section \<open>Secure messages\<close>

text \<open>
  C10. \<^verbatim>\<open>createSecureMessage\<close> returns null exactly when the conversation id or the user
  id or the content fails its validator or the injection heuristic flags the content.
  Every object it returns carries the conversation id and the user id it was given, and
  has the sanitized content in both \<^verbatim>\<open>content\<close> and \<^verbatim>\<open>sanitizedContent\<close>.
\<close>

theorem createSecureMessage_result:
  "(createSecureMessage purify c u m = None \<longleftrightarrow>
      (\<not> validateConversationId c \<or> \<not> validateUserId u \<or>
       \<not> validateMessageContent m \<or> detectInjectionAttempt m)) \<and>
   (createSecureMessage purify c u m = Some msg \<longrightarrow>
      msg_conversationId msg = c \<and> msg_userId msg = u \<and>
      msg_content msg = sanitizeInput purify m \<and>
      sanitizedContent msg = sanitizeInput purify m)"
  by (auto simp: createSecureMessage_def Let_def)

lemmas validator_eval =
  validateConversationId_def validateUserId_def validateMessageContent_def
  detectInjectionAttempt_def contains_any_def contains_def contains_ci_def script_tag_def
  keyword_at_def sql_keywords_def js_split_def trim_def

text \<open>
  Instances of C10: a plain message is accepted and comes back with its ids and the
  sanitized content, and a message with an SQL keyword is refused.
\<close>

theorem createSecureMessage_result_witness:
  "validateConversationId ''conv-1'' \<and> validateUserId ''abcdefghij0123456789'' \<and>
   validateMessageContent '' hi there'' \<and> \<not> detectInjectionAttempt '' hi there'' \<and>
   (\<exists>msg. createSecureMessage strip_markup ''conv-1'' ''abcdefghij0123456789'' '' hi there'' =
            Some msg \<and>
          msg_conversationId msg = ''conv-1'' \<and> msg_userId msg = ''abcdefghij0123456789'' \<and>
          msg_content msg = ''hi there'' \<and> sanitizedContent msg = ''hi there'') \<and>
   detectInjectionAttempt ''drop it'' \<and>
   createSecureMessage strip_markup ''conv-1'' ''abcdefghij0123456789'' ''drop it'' = None"
proof -
  have v1: "validateConversationId ''conv-1''" by (simp add: validator_eval char_eval)
  have v2: "validateUserId ''abcdefghij0123456789''" by (simp add: validator_eval char_eval)
  have v3: "validateMessageContent '' hi there''" by (simp add: validator_eval char_eval)
  have v4: "\<not> detectInjectionAttempt '' hi there''" by (simp add: validator_eval char_eval)
  have v5: "detectInjectionAttempt ''drop it''" by (simp add: validator_eval char_eval)
  have s: "sanitizeInput strip_markup '' hi there'' = ''hi there''"
    by (simp add: sanitizeInput_def strip_markup_def remove_null_def remove_control_def
        trim_def char_eval)
  note ok = createSecureMessage_result
    [where purify = strip_markup and c = "''conv-1''" and u = "''abcdefghij0123456789''"
       and m = "'' hi there''"]
  have "createSecureMessage strip_markup ''conv-1'' ''abcdefghij0123456789'' '' hi there'' \<noteq> None"
    using ok [THEN conjunct1] v1 v2 v3 v4 by blast
  then obtain msg where
    m: "createSecureMessage strip_markup ''conv-1'' ''abcdefghij0123456789'' '' hi there'' = Some msg"
    by blast
  have fields: "msg_conversationId msg = ''conv-1'' \<and> msg_userId msg = ''abcdefghij0123456789'' \<and>
          msg_content msg = ''hi there'' \<and> sanitizedContent msg = ''hi there''"
    using createSecureMessage_result
      [where purify = strip_markup and c = "''conv-1''" and u = "''abcdefghij0123456789''"
         and m = "'' hi there''" and msg = msg, THEN conjunct2] m s
    by simp
  have refused: "createSecureMessage strip_markup ''conv-1'' ''abcdefghij0123456789'' ''drop it'' = None"
    using createSecureMessage_result
      [where purify = strip_markup and c = "''conv-1''" and u = "''abcdefghij0123456789''"
         and m = "''drop it''", THEN conjunct1] v5
    by blast
  from v1 v2 v3 v4 m fields v5 refused show ?thesis by blast
qed

section \<open>The rate limiter\<close>

lemma calls_append:
  "calls l (xs @ ys) st =
     (case calls l xs st of (bs, st1) \<Rightarrow> (case calls l ys st1 of (cs, st2) \<Rightarrow> (bs @ cs, st2)))"
  by (induction xs arbitrary: st) (auto split: prod.splits)

lemma calls_within_window:
  assumes "accessible st" and "items st (lim_key l) = Some (Counter c r)"
    and "\<forall>t \<in> set ts. t \<le> r" and "c + int (length ts) \<le> maxRequests l"
  shows "fst (calls l ts st) = replicate (length ts) True \<and>
         accessible (snd (calls l ts st)) \<and>
         items (snd (calls l ts st)) (lim_key l) = Some (Counter (c + int (length ts)) r)"
  using assms
proof (induction ts arbitrary: st c)
  case Nil
  then show ?case by simp
next
  case (Cons t ts)
  let ?st1 = "setItem (lim_key l) (Counter (c + 1) r) st"
  have step: "isAllowed l t st = (True, ?st1)"
    using Cons.prems by (simp add: isAllowed_def)
  have a1: "accessible ?st1" using Cons.prems(1) by (simp add: setItem_def)
  have a2: "items ?st1 (lim_key l) = Some (Counter (c + 1) r)" by (simp add: setItem_def)
  have a3: "\<forall>t \<in> set ts. t \<le> r" using Cons.prems(3) by simp
  have a4: "(c + 1) + int (length ts) \<le> maxRequests l" using Cons.prems(4) by simp
  note ih = Cons.IH [OF a1 a2 a3 a4]
  show ?case using step ih by (simp add: split_beta add.assoc)
qed

text \<open>
  C9. For a limiter with a maximum of N requests per window, N a count of at least 1, on
  an accessible storage that holds nothing under the limiter's key: the first call and
  the N - 1 calls after it that come no later than the window's reset time all return
  true; the next call within the window returns false; and a call after the reset time
  returns true and starts a new window with the count 1.
\<close>

theorem rate_limiter_window:
  assumes "1 \<le> maxRequests l" and "accessible st" and "items st (lim_key l) = None"
    and "int (length ts) = maxRequests l - 1"
    and "\<forall>t \<in> set ts. t \<le> t0 + windowMs l"
    and "tn \<le> t0 + windowMs l" and "t0 + windowMs l < tr"
  shows "fst (calls l (t0 # ts @ [tn, tr]) st) =
           replicate (nat (maxRequests l)) True @ [False, True] \<and>
         items (snd (calls l (t0 # ts @ [tn, tr]) st)) (lim_key l) =
           Some (Counter 1 (tr + windowMs l))"
proof -
  let ?k = "lim_key l"
  let ?r = "t0 + windowMs l"
  let ?st1 = "setItem ?k (Counter 1 ?r) st"
  have first: "isAllowed l t0 st = (True, ?st1)"
    using assms(2,3) by (simp add: isAllowed_def)
  have a1: "accessible ?st1" using assms(2) by (simp add: setItem_def)
  have a2: "items ?st1 ?k = Some (Counter 1 ?r)" by (simp add: setItem_def)
  have a4: "1 + int (length ts) \<le> maxRequests l" using assms(4) by simp
  note mid = calls_within_window [OF a1 a2 assms(5) a4]
  obtain bs st2 where c2: "calls l ts ?st1 = (bs, st2)" by (cases "calls l ts ?st1")
  have bs: "bs = replicate (length ts) True" and acc2: "accessible st2"
    and it2: "items st2 ?k = Some (Counter (maxRequests l) ?r)"
    using mid c2 assms(4) by simp_all
  have deny: "isAllowed l tn st2 = (False, st2)"
    using acc2 it2 assms(6) by (simp add: isAllowed_def)
  have reset: "isAllowed l tr st2 = (True, setItem ?k (Counter 1 (tr + windowMs l)) st2)"
    using acc2 it2 assms(7) by (simp add: isAllowed_def)
  have len: "Suc (length ts) = nat (maxRequests l)" using assms(1,4) by linarith
  have "calls l (t0 # ts @ [tn, tr]) st =
          (True # bs @ [False, True], setItem ?k (Counter 1 (tr + windowMs l)) st2)"
    using first c2 deny reset by (simp add: calls_append)
  then show ?thesis using bs len
    by (simp add: setItem_def replicate_Suc [symmetric] del: replicate_Suc)
qed

text \<open>
  The instance of C9 for three requests per minute: three calls pass, the fourth is
  denied, and a call after the minute passes again.
\<close>

theorem rate_limiter_window_witness:
  "1 \<le> maxRequests (RateLimiter ''api'' 3 60000) \<and>
   items empty_storage (lim_key (RateLimiter ''api'' 3 60000)) = None \<and>
   fst (calls (RateLimiter ''api'' 3 60000) [1000, 1001, 1002, 61000, 61001] empty_storage) =
     [True, True, True, False, True] \<and>
   items (snd (calls (RateLimiter ''api'' 3 60000) [1000, 1001, 1002, 61000, 61001]
     empty_storage)) ''ratelimit_api'' = Some (Counter 1 121001)"
proof -
  let ?l = "RateLimiter ''api'' 3 60000"
  have h1: "1 \<le> maxRequests ?l" by (simp add: RateLimiter_def)
  have h2: "accessible empty_storage" by (simp add: empty_storage_def)
  have h3: "items empty_storage (lim_key ?l) = None" by (simp add: empty_storage_def)
  have h4: "int (length [1001, 1002 :: int]) = maxRequests ?l - 1" by (simp add: RateLimiter_def)
  have h5: "\<forall>t \<in> set [1001, 1002 :: int]. t \<le> 1000 + windowMs ?l" by (simp add: RateLimiter_def)
  have h6: "(61000 :: int) \<le> 1000 + windowMs ?l" by (simp add: RateLimiter_def)
  have h7: "1000 + windowMs ?l < (61001 :: int)" by (simp add: RateLimiter_def)
  note inst = rate_limiter_window [OF h1 h2 h3 h4 h5 h6 h7]
  have c1: "fst (calls ?l [1000, 1001, 1002, 61000, 61001] empty_storage) =
     [True, True, True, False, True]"
    using inst [THEN conjunct1] by (simp add: RateLimiter_def numeral_3_eq_3)
  have c2: "items (snd (calls ?l [1000, 1001, 1002, 61000, 61001] empty_storage))
     ''ratelimit_api'' = Some (Counter 1 121001)"
    using inst [THEN conjunct2] by (simp add: RateLimiter_def)
  from h1 h3 c1 c2 show ?thesis by (intro conjI)
qed

text \<open>
  The first call of a window is allowed without a look at the maximum, so a limiter with
  the maximum 0 still lets one call pass per window.
\<close>

lemma first_call_with_maximum_zero:
  "maxRequests (RateLimiter ''api'' 0 60000) = 0 \<and>
   fst (calls (RateLimiter ''api'' 0 60000) [1000] empty_storage) = [True]"
  by (simp add: RateLimiter_def isAllowed_def setItem_def empty_storage_def)

end
